theory Spec2Isabelle
  imports Main "HOL-Library.Sublist"
begin

section \<open>Text primitives of the Python runtime\<close>

text \<open>
  A Python \<open>str\<close> is modelled as a \<open>string\<close> whose characters are the code points below
  256 (Latin-1). The character classes below are those of CPython on that range:
  \<open>str.isspace\<close>, \<open>str.isalnum\<close> (which is also what the regular expression class
  \<open>\w\<close> matches, apart from the underscore) and \<open>str.lower\<close>.
\<close>

definition isspace :: "char \<Rightarrow> bool" where
  "isspace c = (let n = (of_char c :: nat) in
     (9 \<le> n \<and> n \<le> 13) \<or> (28 \<le> n \<and> n \<le> 32) \<or> n = 133 \<or> n = 160)"

definition isalnum_char :: "char \<Rightarrow> bool" where
  "isalnum_char c = (let n = (of_char c :: nat) in
     (48 \<le> n \<and> n \<le> 57) \<or> (65 \<le> n \<and> n \<le> 90) \<or> (97 \<le> n \<and> n \<le> 122) \<or>
     n \<in> {170, 178, 179, 181, 185, 186, 188, 189, 190} \<or>
     (192 \<le> n \<and> n \<noteq> 215 \<and> n \<noteq> 247))"

text \<open>\<open>word.isalnum()\<close>: every character is alphanumeric and there is at least one.\<close>

definition isalnum :: "string \<Rightarrow> bool" where
  "isalnum s = (s \<noteq> [] \<and> list_all isalnum_char s)"

text \<open>The regular expression class \<open>\w\<close>.\<close>

definition is_word_char :: "char \<Rightarrow> bool" where
  "is_word_char c = (isalnum_char c \<or> c = CHR ''_'')"

definition lower_char :: "char \<Rightarrow> char" where
  "lower_char c = (let n = (of_char c :: nat) in
     if (65 \<le> n \<and> n \<le> 90) \<or> (192 \<le> n \<and> n \<le> 222 \<and> n \<noteq> 215)
     then char_of (n + 32) else c)"

definition lower :: "string \<Rightarrow> string" where
  "lower s = map lower_char s"

text \<open>\<open>s.strip()\<close> and \<open>s.strip(chars)\<close>.\<close>

definition strip :: "string \<Rightarrow> string" where
  "strip s = rev (dropWhile isspace (rev (dropWhile isspace s)))"

definition strip_chars :: "string \<Rightarrow> string \<Rightarrow> string" where
  "strip_chars cs s =
     rev (dropWhile (\<lambda>c. c \<in> set cs) (rev (dropWhile (\<lambda>c. c \<in> set cs) s)))"

text \<open>\<open>pat in s\<close> on strings: \<open>pat\<close> occurs in \<open>s\<close> as a contiguous substring.\<close>

fun contains :: "string \<Rightarrow> string \<Rightarrow> bool" where
  "contains pat [] = (pat = [])"
| "contains pat (c # cs) = (prefix pat (c # cs) \<or> contains pat cs)"

text \<open>\<open>any(pat in s for pat in pats)\<close> and \<open>sum(1 for pat in pats if pat in s)\<close>.\<close>

definition any_in :: "string list \<Rightarrow> string \<Rightarrow> bool" where
  "any_in pats s = list_ex (\<lambda>pat. contains pat s) pats"

definition count_in :: "string list \<Rightarrow> string \<Rightarrow> nat" where
  "count_in pats s = length (filter (\<lambda>pat. contains pat s) pats)"

text \<open>\<open>sep.join(xs)\<close>.\<close>

fun join :: "string \<Rightarrow> string list \<Rightarrow> string" where
  "join sep [] = []"
| "join sep [x] = x"
| "join sep (x # y # ys) = x @ sep @ join sep (y # ys)"

text \<open>
  \<open>s.split()\<close> without a separator: the maximal runs of non-whitespace characters.
  The accumulator holds the current run, reversed.
\<close>

fun split_ws_aux :: "string \<Rightarrow> string \<Rightarrow> string list" where
  "split_ws_aux acc [] = (if acc = [] then [] else [rev acc])"
| "split_ws_aux acc (c # cs) =
     (if isspace c
      then (if acc = [] then split_ws_aux [] cs else rev acc # split_ws_aux [] cs)
      else split_ws_aux (c # acc) cs)"

definition split_ws :: "string \<Rightarrow> string list" where
  "split_ws s = split_ws_aux [] s"

text \<open>
  \<open>s.split(sep)\<close> with a separator: cut at the non-overlapping occurrences of \<open>sep\<close>,
  scanning from the left. Python raises \<open>ValueError\<close> for an empty separator; the source
  only passes non-empty literals, and here an empty separator never matches.
\<close>

function split_from :: "string \<Rightarrow> string \<Rightarrow> string \<Rightarrow> string list" where
  "split_from sep acc s =
     (if s = [] then [rev acc]
      else if sep \<noteq> [] \<and> prefix sep s then rev acc # split_from sep [] (drop (length sep) s)
      else split_from sep (hd s # acc) (tl s))"
  by pat_completeness auto
termination
  by (relation "measure (\<lambda>(sep, acc, s). length s)") auto

declare split_from.simps [simp del]

definition split :: "string \<Rightarrow> string \<Rightarrow> string list" where
  "split sep s = split_from sep [] s"

text \<open>
  \<open>re.search(lit + r"(\w+)", s)\<close> for a literal \<open>lit\<close>: the leftmost position where
  \<open>lit\<close> is followed by at least one word character; the result is group 1, the
  maximal run of word characters there (\<open>+\<close> is greedy). \<open>None\<close> when nothing matches.
\<close>

fun re_search_word_after :: "string \<Rightarrow> string \<Rightarrow> string option" where
  "re_search_word_after lit [] = None"
| "re_search_word_after lit (c # cs) =
     (if prefix lit (c # cs) \<and> takeWhile is_word_char (drop (length lit) (c # cs)) \<noteq> []
      then Some (takeWhile is_word_char (drop (length lit) (c # cs)))
      else re_search_word_after lit cs)"

section \<open>Messages\<close>

text \<open>A message is the dict \<open>{"role": ..., "content": ..., "extraction_method": ...}\<close>.\<close>

record message =
  role :: string
  content :: string
  extraction_method :: string

section \<open>Title generation (services/insight_extractor.py)\<close>

text \<open>
  The literal prefixes of the four name patterns \<open>my name is (\w+)\<close>, \<open>i'm (\w+)\<close>,
  \<open>i am (\w+)\<close>, \<open>call me (\w+)\<close>, in the order the source tries them.
\<close>

definition name_patterns :: "string list" where
  "name_patterns = [''my name is '', ''i'm '', ''i am '', ''call me '']"

text \<open>The loop over the patterns: the first pattern that matches gives the name.\<close>

fun search_patterns :: "string list \<Rightarrow> string \<Rightarrow> string option" where
  "search_patterns [] s = None"
| "search_patterns (p # ps) s =
     (case re_search_word_after p s of Some g \<Rightarrow> Some g | None \<Rightarrow> search_patterns ps s)"

text \<open>The loop that finds the content of the first message with role \<open>user\<close>.\<close>

fun first_user_msg :: "message list \<Rightarrow> string option" where
  "first_user_msg [] = None"
| "first_user_msg (m # ms) = (if role m = ''user'' then Some (content m) else first_user_msg ms)"

text \<open>
  The placeholder \<open>conversation_<timestamp>\<close>; \<open>now\<close> is the formatted
  \<open>datetime.now().strftime('%Y%m%d_%H%M%S')\<close> of the call.
\<close>

definition placeholder_title :: "string \<Rightarrow> string" where
  "placeholder_title now = ''conversation_'' @ now"

definition title_char :: "char \<Rightarrow> bool" where
  "title_char c = (is_word_char c \<or> c = CHR ''-'' \<or> c = CHR ''_'')"

definition summary_of :: "string \<Rightarrow> string" where
  "summary_of msg =
     join ''_'' (map (\<lambda>word. strip_chars ''.,!?'' (lower word))
                     (filter isalnum (take 5 (split_ws msg))))"

text \<open>
  \<open>generate_title\<close>. With string contents no statement of the body raises, so the
  \<open>except\<close> branch (which returns the placeholder too) is not reached.
\<close>

definition generate_title :: "string \<Rightarrow> message list \<Rightarrow> string" where
  "generate_title now conversation_data =
     (case first_user_msg conversation_data of
        None \<Rightarrow> placeholder_title now
      | Some msg \<Rightarrow>
          if msg = [] then placeholder_title now
          else
            let user_name = (case search_patterns name_patterns (lower msg) of
                               Some g \<Rightarrow> g | None \<Rightarrow> ''user'');
                summary = summary_of msg;
                title = take 50 (filter title_char (user_name @ ''_'' @ summary))
            in if title = [] then placeholder_title now else title)"

section \<open>Fallback insights (services/insight_extractor.py)\<close>

record insights =
  user_name :: "string option"
  user_background :: string
  main_topic :: string
  problem_described :: string
  solution_provided :: string
  tags :: "string list"
  sentiment :: string
  created_at :: string

definition positive_words :: "string list" where
  "positive_words = [''good'', ''great'', ''excellent'', ''thank'', ''helpful'', ''amazing'']"

definition negative_words :: "string list" where
  "negative_words = [''bad'', ''terrible'', ''awful'', ''problem'', ''issue'', ''error'']"

definition user_messages_of :: "message list \<Rightarrow> string list" where
  "user_messages_of conversation_data =
     map content (filter (\<lambda>msg. role msg = ''user'') conversation_data)"

definition assistant_messages_of :: "message list \<Rightarrow> string list" where
  "assistant_messages_of conversation_data =
     map content (filter (\<lambda>msg. role msg = ''assistant'') conversation_data)"

definition all_text_of :: "message list \<Rightarrow> string" where
  "all_text_of conversation_data =
     lower (join '' '' (user_messages_of conversation_data @ assistant_messages_of conversation_data))"

definition sentiment_of :: "message list \<Rightarrow> string" where
  "sentiment_of conversation_data =
     (let all_text = all_text_of conversation_data;
          pos_count = count_in positive_words all_text;
          neg_count = count_in negative_words all_text
      in if pos_count > neg_count then ''positive''
         else if neg_count > pos_count then ''negative''
         else ''neutral'')"

text \<open>\<open>_generate_fallback_insights\<close>; \<open>now\<close> is \<open>datetime.now().isoformat()\<close>.\<close>

definition generate_fallback_insights :: "string \<Rightarrow> message list \<Rightarrow> insights" where
  "generate_fallback_insights now conversation_data =
     (let user_messages = user_messages_of conversation_data;
          assistant_messages = assistant_messages_of conversation_data
      in \<lparr> user_name = (case user_messages of [] \<Rightarrow> None
                         | first_msg # _ \<Rightarrow> search_patterns name_patterns (lower first_msg)),
           user_background = ''Not specified'',
           main_topic = (case user_messages of [] \<Rightarrow> ''General conversation''
                         | first_msg # _ \<Rightarrow> join '' '' (take 5 (split_ws first_msg))),
           problem_described = (case user_messages of [] \<Rightarrow> ''No problem specified''
                                | first_msg # _ \<Rightarrow> first_msg),
           solution_provided = (case assistant_messages of [] \<Rightarrow> ''No solution provided''
                                | first_msg # _ \<Rightarrow> first_msg),
           tags = [''conversation'', ''chat''],
           sentiment = sentiment_of conversation_data,
           created_at = now \<rparr>)"

section \<open>The rendered document (the query capability)\<close>

text \<open>
  The rendering engine is external. An element handle offers \<open>query_selector_all\<close>,
  \<open>get_attribute\<close> and \<open>inner_text\<close>; each call may raise, which is the value
  \<open>None\<close>. \<open>get_attribute\<close> returns \<open>Some None\<close> for an absent attribute (Python's
  \<open>None\<close>). A page offers \<open>query_selector_all\<close> and \<open>inner_text(selector)\<close>.
\<close>

datatype element = Element
  (query_selector_all: "string \<Rightarrow> element list option")
  (get_attribute: "string \<Rightarrow> string option option")
  (inner_text: "string option")

record page =
  page_query_selector_all :: "string \<Rightarrow> element list option"
  page_inner_text :: "string \<Rightarrow> string option"

text \<open>\<open>x or ''\<close> for an optional string.\<close>

definition or_empty :: "string option \<Rightarrow> string" where
  "or_empty x = (case x of None \<Rightarrow> [] | Some s \<Rightarrow> s)"

section \<open>Role classification (services/content_extractor.py)\<close>

definition user_patterns :: "string list" where
  "user_patterns = [''please'', ''can you'', ''how do i'', ''what is'', ''help me'',
                    ''i want'', ''i need'', ''could you'', ''would you'']"

definition assistant_patterns :: "string list" where
  "assistant_patterns = [''i can help'', ''here is'', ''here are'', ''to answer'',
                         ''certainly'', ''of course'', ''i understand'', ''let me'']"

definition guess_role_from_content :: "string \<Rightarrow> nat \<Rightarrow> string" where
  "guess_role_from_content content' position =
     (let content_lower = lower content';
          user_score = count_in user_patterns content_lower;
          assistant_score = count_in assistant_patterns content_lower
      in if user_score > assistant_score then ''user''
         else if assistant_score > user_score then ''assistant''
         else if position mod 2 = 0 then ''user'' else ''assistant'')"

definition user_avatar_selectors :: "string list" where
  \<open>user_avatar_selectors =
     [''img[alt*="User"]'', ''img[alt*="user"]'', ''img[src*="user"]'',
      ''[aria-label*="User"]'', ''[aria-label*="user"]'',
      ''[data-testid*="user"]'', ''.user-avatar'']\<close>

definition assistant_avatar_selectors :: "string list" where
  \<open>assistant_avatar_selectors =
     [''img[alt*="ChatGPT"]'', ''img[alt*="Assistant"]'', ''img[alt*="assistant"]'',
      ''img[src*="chatgpt"]'', ''img[src*="openai"]'',
      ''[aria-label*="ChatGPT"]'', ''[aria-label*="Assistant"]'',
      ''[data-testid*="assistant"]'', ''.assistant-avatar'']\<close>

text \<open>
  The loop \<open>for selector in selectors: if query_selector_all(selector): return ...\<close>:
  \<open>Some True\<close> when a selector matched, \<open>Some False\<close> when the loop ran through,
  \<open>None\<close> when a query raised before any match.
\<close>

fun any_selector_matches :: "element \<Rightarrow> string list \<Rightarrow> bool option" where
  "any_selector_matches container [] = Some False"
| "any_selector_matches container (selector # selectors) =
     (case query_selector_all container selector of
        None \<Rightarrow> None
      | Some elements \<Rightarrow>
          if elements \<noteq> [] then Some True else any_selector_matches container selectors)"

text \<open>
  \<open>_determine_role_improved\<close>. Every exception inside the \<open>try\<close> is caught and leads to
  the final \<open>return "unknown"\<close>, as does an empty inner text.
\<close>

definition determine_role_improved :: "element \<Rightarrow> string" where
  "determine_role_improved container =
     (case any_selector_matches container user_avatar_selectors of
        None \<Rightarrow> ''unknown''
      | Some True \<Rightarrow> ''user''
      | Some False \<Rightarrow>
     (case any_selector_matches container assistant_avatar_selectors of
        None \<Rightarrow> ''unknown''
      | Some True \<Rightarrow> ''assistant''
      | Some False \<Rightarrow>
     (case get_attribute container ''class'' of
        None \<Rightarrow> ''unknown''
      | Some cls \<Rightarrow>
     (case get_attribute container ''data-testid'' of
        None \<Rightarrow> ''unknown''
      | Some testid \<Rightarrow>
          let container_html = or_empty cls @ or_empty testid
          in if any_in [''user'', ''human''] (lower container_html) then ''user''
             else if any_in [''assistant'', ''ai'', ''chatgpt'', ''bot''] (lower container_html)
             then ''assistant''
             else (case inner_text container of
                     None \<Rightarrow> ''unknown''
                   | Some content' \<Rightarrow>
                       if content' \<noteq> [] then guess_role_from_content content' 0
                       else ''unknown'')))))"

section \<open>Content extraction (services/content_extractor.py)\<close>

text \<open>
  The inner loop of \<open>_extract_content\<close>: the stripped, non-blank inner texts of the
  matched elements; \<open>None\<close> when an \<open>inner_text\<close> call raises (the source then goes
  on with the next selector).
\<close>

fun collect_texts :: "element list \<Rightarrow> string list option" where
  "collect_texts [] = Some []"
| "collect_texts (elem # elems) =
     (case inner_text elem of
        None \<Rightarrow> None
      | Some text' \<Rightarrow>
          (case collect_texts elems of
             None \<Rightarrow> None
           | Some texts \<Rightarrow>
               Some (if text' \<noteq> [] \<and> strip text' \<noteq> [] then strip text' # texts else texts)))"

fun extract_content :: "element \<Rightarrow> string list \<Rightarrow> string" where
  "extract_content container [] =
     (case inner_text container of
        None \<Rightarrow> []
      | Some full_text \<Rightarrow> if full_text \<noteq> [] then strip full_text else [])"
| "extract_content container (selector # selectors) =
     (case query_selector_all container selector of
        None \<Rightarrow> extract_content container selectors
      | Some elements \<Rightarrow>
          if elements \<noteq> [] then
            (case collect_texts elements of
               None \<Rightarrow> extract_content container selectors
             | Some texts \<Rightarrow>
                 if texts \<noteq> [] then join [CHR 0x0A] texts
                 else extract_content container selectors)
          else extract_content container selectors)"

text \<open>
  The loop over the containers shared by the three selector strategies: classify the
  role, extract the content, keep it when its stripped length exceeds 10.
\<close>

fun container_messages :: "string \<Rightarrow> string list \<Rightarrow> element list \<Rightarrow> message list" where
  "container_messages method selectors [] = []"
| "container_messages method selectors (container # containers) =
     (let role' = determine_role_improved container;
          content' = extract_content container selectors
      in if content' \<noteq> [] \<and> length (strip content') > 10
         then \<lparr>role = role', content = strip content', extraction_method = method\<rparr>
              # container_messages method selectors containers
         else container_messages method selectors containers)"

text \<open>The first container selector with a non-empty match; \<open>None\<close> when a query raises.\<close>

fun find_containers :: "page \<Rightarrow> string list \<Rightarrow> element list option" where
  "find_containers pg [] = Some []"
| "find_containers pg (selector # selectors) =
     (case page_query_selector_all pg selector of
        None \<Rightarrow> None
      | Some found \<Rightarrow> if found \<noteq> [] then Some found else find_containers pg selectors)"

text \<open>
  A strategy returns \<open>None\<close> when it raises (the caller logs and tries the next one).
\<close>

definition strategy_modern_selectors :: "page \<Rightarrow> message list option" where
  \<open>strategy_modern_selectors pg =
     (case find_containers pg [''[data-testid*="conversation-turn"]'',
                               ''[data-testid*="message"]'',
                               ''div[class*="ConversationItem"]''] of
        None \<Rightarrow> None
      | Some containers \<Rightarrow>
          Some (container_messages ''modern_selectors''
                  [''.prose'', ''.markdown'', ''[class*="markdown"]'', ''[class*="prose"]'']
                  containers))\<close>

definition strategy_alternative_selectors :: "page \<Rightarrow> message list option" where
  \<open>strategy_alternative_selectors pg =
     (case page_query_selector_all pg ''div[class*="group"][class*="w-full"]'' of
        None \<Rightarrow> None
      | Some containers \<Rightarrow>
          Some (container_messages ''alternative_selectors''
                  [''div[class*="markdown"]'', ''.prose'', ''div[class*="prose"]'',
                   ''.message-content'']
                  containers))\<close>

definition strategy_generic_selectors :: "page \<Rightarrow> message list option" where
  \<open>strategy_generic_selectors pg =
     (case page_query_selector_all pg ''div.group, div[class*="message"]'' of
        None \<Rightarrow> None
      | Some containers \<Rightarrow>
          Some (container_messages ''generic_selectors''
                  [''div[class*="markdown"]'', ''div[class*="prose"]'', ''.message-content'',
                   ''p'']
                  containers))\<close>

definition ui_patterns :: "string list" where
  "ui_patterns = [''sign up'', ''log in'', ''menu'', ''navigation'', ''footer'',
                  ''cookie'', ''privacy'', ''terms'', ''subscribe'']"

definition looks_like_message :: "string \<Rightarrow> bool" where
  "looks_like_message text' =
     (if length text' < 20 \<or> length text' > 10000 then False
      else if any_in ui_patterns (lower text') then False
      else True)"

text \<open>
  The first loop of \<open>_strategy_structured_extraction\<close>; an element whose \<open>inner_text\<close>
  raises is skipped (\<open>except: continue\<close>).
\<close>

fun potential_messages :: "element list \<Rightarrow> message list" where
  "potential_messages [] = []"
| "potential_messages (elem # elems) =
     (case inner_text elem of
        None \<Rightarrow> potential_messages elems
      | Some text' \<Rightarrow>
          if text' \<noteq> [] \<and> length (strip text') > 20 \<and> length (strip text') < 10000
             \<and> looks_like_message (strip text')
          then \<lparr>role = determine_role_improved elem, content = strip text',
                extraction_method = ''structured_extraction''\<rparr> # potential_messages elems
          else potential_messages elems)"

text \<open>
  The deduplication loop: \<open>str_hash\<close> is Python's \<open>hash\<close> on strings (fixed within a
  process, not specified further), \<open>seen_content\<close> the set of hashes met so far.
\<close>

fun dedup_messages :: "(string \<Rightarrow> int) \<Rightarrow> int set \<Rightarrow> message list \<Rightarrow> message list" where
  "dedup_messages str_hash seen_content [] = []"
| "dedup_messages str_hash seen_content (msg # msgs) =
     (let content_hash = str_hash (take 100 (content msg))
      in if content_hash \<notin> seen_content
         then msg # dedup_messages str_hash (insert content_hash seen_content) msgs
         else dedup_messages str_hash seen_content msgs)"

definition strategy_structured_extraction :: "(string \<Rightarrow> int) \<Rightarrow> page \<Rightarrow> message list option" where
  "strategy_structured_extraction str_hash pg =
     (case page_query_selector_all pg ''div, article, section'' of
        None \<Rightarrow> None
      | Some all_elements \<Rightarrow>
          Some (take 50 (dedup_messages str_hash {} (potential_messages all_elements))))"

definition potential_splits :: "string list" where
  "potential_splits =
     [ [CHR 0x0A, CHR 0x0A, CHR 0x0A],
      [CHR 0x0A, CHR 0x0A] @ ''User'' @ [CHR 0x0A],
      [CHR 0x0A, CHR 0x0A] @ ''Assistant'' @ [CHR 0x0A],
      [CHR 0x0A, CHR 0x0A] @ ''ChatGPT'' @ [CHR 0x0A] ]"

text \<open>The loop that re-splits every segment on each boundary marker in turn.\<close>

fun split_segments :: "string list \<Rightarrow> string list \<Rightarrow> string list" where
  "split_segments [] segments = segments"
| "split_segments (split_pattern # split_patterns) segments =
     split_segments split_patterns (concat (map (split split_pattern) segments))"

text \<open>The loop over \<open>enumerate(segments)\<close>, \<open>i\<close> being the index of the head.\<close>

fun classify_segments :: "nat \<Rightarrow> string list \<Rightarrow> message list" where
  "classify_segments i [] = []"
| "classify_segments i (segment # segments) =
     (let cleaned = strip segment
      in if length cleaned > 50 \<and> length cleaned < 5000
         then \<lparr>role = guess_role_from_content cleaned i, content = cleaned,
               extraction_method = ''fallback_pattern''\<rparr> # classify_segments (Suc i) segments
         else classify_segments (Suc i) segments)"

definition strategy_fallback :: "page \<Rightarrow> message list option" where
  "strategy_fallback pg =
     (case page_inner_text pg ''body'' of
        None \<Rightarrow> None
      | Some page_text \<Rightarrow>
          Some (take 20 (classify_segments 0 (split_segments potential_splits [page_text]))))"

section \<open>The strategy chain (services/content_extractor.py)\<close>

definition validate_conversation_structure :: "message list \<Rightarrow> bool" where
  "validate_conversation_structure messages' =
     (if messages' = [] then False
      else let roles = set (map role messages')
           in ''user'' \<in> roles \<and> ''assistant'' \<in> roles)"

definition strategies :: "(string \<Rightarrow> int) \<Rightarrow> (page \<Rightarrow> message list option) list" where
  "strategies str_hash =
     [strategy_modern_selectors,
      strategy_alternative_selectors,
      strategy_generic_selectors,
      strategy_structured_extraction str_hash,
      strategy_fallback]"

text \<open>
  The loop of \<open>_extract_with_multiple_strategies\<close>: a strategy that raises, or returns
  an empty or invalid conversation, is passed over; after the last one the result is
  the empty list.
\<close>

fun try_strategies :: "(page \<Rightarrow> message list option) list \<Rightarrow> page \<Rightarrow> message list" where
  "try_strategies [] pg = []"
| "try_strategies (strategy # rest) pg =
     (case strategy pg of
        None \<Rightarrow> try_strategies rest pg
      | Some conversation \<Rightarrow>
          if conversation \<noteq> [] \<and> validate_conversation_structure conversation
          then conversation
          else try_strategies rest pg)"

definition extract_with_multiple_strategies :: "(string \<Rightarrow> int) \<Rightarrow> page \<Rightarrow> message list" where
  "extract_with_multiple_strategies str_hash pg = try_strategies (strategies str_hash) pg"

section \<open>Conversation extraction (services/content_extractor.py)\<close>

record metadata =
  total_messages :: nat
  user_messages :: nat
  assistant_messages :: nat
  meta_extraction_method :: string

record transcript =
  url :: string
  messages :: "message list"
  metadata :: metadata

definition error_patterns :: "string list" where
  "error_patterns = [''can't load shared conversation'', ''return to chatgpt'',
                     ''unable to load'', ''not found'', ''something went wrong'']"

definition is_error_message :: "message \<Rightarrow> bool" where
  "is_error_message msg = any_in error_patterns (lower (content msg))"

text \<open>
  \<open>extract_conversation\<close>. \<open>render\<close> is the browser: launching it, opening the page and
  waiting for it; \<open>None\<close> when any of that raises, which the source answers with
  \<open>None\<close>. The function itself never raises: both \<open>try\<close> blocks catch everything.
\<close>

definition extract_conversation ::
  "(string \<Rightarrow> int) \<Rightarrow> (string \<Rightarrow> page option) \<Rightarrow> string \<Rightarrow> transcript option" where
  "extract_conversation str_hash render url' =
     (case render url' of
        None \<Rightarrow> None
      | Some pg \<Rightarrow>
          let messages' = extract_with_multiple_strategies str_hash pg;
              filtered_messages = filter (\<lambda>msg. \<not> is_error_message msg) messages'
          in if filtered_messages = [] then None
             else
               let user_count = length (filter (\<lambda>msg. role msg = ''user'') filtered_messages);
                   assistant_count =
                     length (filter (\<lambda>msg. role msg = ''assistant'') filtered_messages)
               in Some \<lparr> url = url',
                         messages = filtered_messages,
                         metadata = \<lparr> total_messages = length filtered_messages,
                                      user_messages = user_count,
                                      assistant_messages = assistant_count,
                                      meta_extraction_method = ''playwright_multi_strategy'' \<rparr> \<rparr>)"

section \<open>Link validation (app.py)\<close>

text \<open>
  The HTTP session is external. \<open>transport\<close> answers a \<open>GET\<close>: \<open>None\<close> when the request
  raises (timeout, client error), otherwise the response after redirects, whose \<open>body\<close>
  is \<open>None\<close> when reading the text raises. \<open>calls\<close> records every request made through
  the session, in order.
\<close>

record response =
  final_url :: string
  status :: nat
  body :: "string option"

record session =
  transport :: "string \<Rightarrow> response option"
  calls :: "string list"

definition error_indicators :: "string list" where
  "error_indicators = [''conversation not found'', ''this conversation is private'',
                       ''unable to load'', ''something went wrong'',
                       ''conversation has been deleted'']"

definition positive_indicators :: "string list" where
  "positive_indicators = [''chatgpt'', ''conversation'', ''message'', ''user:'', ''assistant:'']"

text \<open>The part of \<open>improved_validate_link\<close> inside \<open>async with session.get(...)\<close>.\<close>

definition check_response :: "response \<Rightarrow> bool" where
  "check_response resp =
     (if contains ''auth.openai.com'' (final_url resp) \<or> contains ''login'' (lower (final_url resp))
      then False
      else if status resp = 404 then False
      else if status resp = 403 then False
      else if status resp \<ge> 400 then False
      else (case body resp of
              None \<Rightarrow> False
            | Some content' \<Rightarrow>
                let content_lower = lower content'
                in if any_in error_indicators content_lower then False
                   else if count_in positive_indicators content_lower < 2 then False
                   else True))"

text \<open>
  \<open>improved_validate_link\<close> returns its verdict and the session after the call. The two
  format checks return before the session is touched.
\<close>

definition improved_validate_link :: "session \<Rightarrow> string \<Rightarrow> bool \<times> session" where
  "improved_validate_link sess url' =
     (if \<not> prefix ''https://chatgpt.com/share/'' url' then (False, sess)
      else
        let uuid_part = last (split ''/'' url')
        in if length uuid_part < 20 then (False, sess)
           else
             let sess' = sess\<lparr>calls := calls sess @ [url']\<rparr>
             in (case transport sess url' of
                   None \<Rightarrow> (False, sess')
                 | Some resp \<Rightarrow> (check_response resp, sess')))"

section \<open>Insight extraction through the summarisation service (services/insight_extractor.py)\<close>

text \<open>
  \<open>json.loads\<close> is a library function: here a parameter that returns \<open>None\<close> when it
  raises. Of a parsed value the program uses only its truth value (\<open>if insights:\<close>) and
  its serialisation (\<open>json.dump\<close>), which is what \<open>json_value\<close> keeps.
\<close>

datatype json_value = JsonValue (truthy: bool) (dumped: string)

text \<open>
  The answer of the HTTP \<open>POST\<close>: it raises (transport error, timeout), or it has a
  status and, for the body, the string \<open>data.get('message', {}).get('content', '')\<close>,
  \<open>None\<close> when decoding the body or reading it raises.
\<close>

datatype llm_reply = PostRaised | Reply nat "string option"

text \<open>
  \<open>re.search(r'\{.*\}', content, re.DOTALL)\<close>: from the first opening brace to the last
  closing brace after it.
\<close>

definition re_search_braces :: "string \<Rightarrow> string option" where
  "re_search_braces s =
     (let t = dropWhile (\<lambda>c. c \<noteq> CHR ''{'') s
      in if t = [] then None
         else let r = rev (dropWhile (\<lambda>c. c \<noteq> CHR ''}'') (rev (tl t)))
              in if r = [] then None else Some (CHR ''{'' # r))"

definition parse_json_response :: "(string \<Rightarrow> json_value option) \<Rightarrow> string \<Rightarrow> json_value option" where
  "parse_json_response json_loads content' =
     (case json_loads content' of
        Some v \<Rightarrow> Some v
      | None \<Rightarrow>
          (case re_search_braces content' of
             None \<Rightarrow> None
           | Some block \<Rightarrow> json_loads block))"

datatype insight_value = LlmInsights json_value | FallbackInsights insights

text \<open>The truth value of what \<open>extract_insights\<close> returns; the fallback dict is not empty.\<close>

fun insight_truthy :: "insight_value \<Rightarrow> bool" where
  "insight_truthy (LlmInsights v) = truthy v"
| "insight_truthy (FallbackInsights d) = True"

text \<open>
  The external capabilities of one pipeline run. The request sent to the summarisation
  service is built from the conversation, so the service is a function of it.
\<close>

record services =
  svc_render :: "string \<Rightarrow> page option"
  svc_hash :: "string \<Rightarrow> int"
  svc_llm_post :: "message list \<Rightarrow> llm_reply"
  svc_json_loads :: "string \<Rightarrow> json_value option"
  svc_clock :: string
  svc_clock_iso :: string
  svc_mkdir_ok :: bool
  svc_write_ok :: "string \<Rightarrow> bool"

definition extract_insights :: "services \<Rightarrow> message list \<Rightarrow> insight_value" where
  "extract_insights svc conversation_data =
     (let fallback = FallbackInsights (generate_fallback_insights (svc_clock_iso svc) conversation_data)
      in case svc_llm_post svc conversation_data of
           PostRaised \<Rightarrow> fallback
         | Reply st reply_content \<Rightarrow>
             if st \<noteq> 200 then fallback
             else (case reply_content of
                     None \<Rightarrow> fallback
                   | Some content' \<Rightarrow>
                       (case parse_json_response (svc_json_loads svc) content' of
                          None \<Rightarrow> fallback
                        | Some parsed \<Rightarrow> if truthy parsed then LlmInsights parsed else fallback)))"

section \<open>The pipeline for one link (app.py)\<close>

record app_state =
  links_generated :: nat
  valid_links :: nat
  insights_extracted :: nat
  failed_validations :: nat

datatype artifact = ConversationFile transcript | InsightsFile insight_value

text \<open>
  The state a run reads and writes: the HTTP session, the global counters, the files
  on disk by path, and the conversations handed to \<open>extract_insights\<close> so far.
\<close>

record world =
  sess :: session
  counters :: app_state
  files :: "string \<rightharpoonup> artifact"
  insight_requests :: "message list list"

record pipeline_result =
  result_url :: string
  conversation_file :: string
  insights_file :: "string option"
  message_count :: nat
  message_types :: "string set"
  title :: string

definition rstrip :: "string \<Rightarrow> string" where
  "rstrip s = rev (dropWhile isspace (rev s))"

definition file_name :: "string \<Rightarrow> string \<Rightarrow> string" where
  "file_name title' url' =
     (let uuid_str = last (split ''/'' url');
          sanitized = rstrip (filter (\<lambda>c. isalnum_char c \<or> c \<in> {CHR '' '', CHR ''-'', CHR ''_''}) title');
          sanitized_title = (if sanitized \<noteq> [] then take 50 sanitized else ''Conversation'')
      in sanitized_title @ ''_'' @ uuid_str @ ''.json'')"

text \<open>
  Step 5 of \<open>process_single_link\<close>, entered once the conversation file is written. A
  write that raises leaves the files as they were; the exception is caught and the run
  falls through to the result without \<open>insights_file\<close>.
\<close>

definition extract_and_save_insights ::
  "services \<Rightarrow> world \<Rightarrow> message list \<Rightarrow> string \<Rightarrow> pipeline_result \<Rightarrow> pipeline_result option \<times> world" where
  "extract_and_save_insights svc w messages' filename base =
     (if length messages' \<ge> 2 then
        let w' = w\<lparr>insight_requests := insight_requests w @ [messages']\<rparr>;
            insights' = extract_insights svc messages'
        in if insight_truthy insights' then
             let insights_filepath = ''insights_json/'' @ filename
             in if svc_write_ok svc insights_filepath then
                  (Some (base\<lparr>insights_file := Some insights_filepath\<rparr>),
                   w'\<lparr>files := (files w')(insights_filepath \<mapsto> InsightsFile insights'),
                       counters := (counters w')\<lparr>insights_extracted :=
                                                   insights_extracted (counters w') + 1\<rparr>\<rparr>)
                else (Some base, w')
           else (Some base, w')
      else (Some base, w))"

text \<open>
  \<open>process_single_link\<close> returns the result dict, or \<open>None\<close>, and the world after the
  run. The messages come from \<open>extract_conversation\<close>, which returns a dict with the
  keys \<open>messages\<close> and \<open>url\<close>, so the re-wrapping branches of the source do nothing;
  \<open>generate_title\<close> does not raise, so the placeholder \<open>Untitled_Conversation\<close> is not
  used.
\<close>

definition process_single_link :: "services \<Rightarrow> world \<Rightarrow> string \<Rightarrow> pipeline_result option \<times> world" where
  "process_single_link svc w url' =
     (let (is_valid, sess') = improved_validate_link (sess w) url';
          w1 = w\<lparr>sess := sess'\<rparr>
      in if \<not> is_valid
         then (None, w1\<lparr>counters := (counters w1)\<lparr>failed_validations :=
                                                    failed_validations (counters w1) + 1\<rparr>\<rparr>)
         else
           let w2 = w1\<lparr>counters := (counters w1)\<lparr>valid_links := valid_links (counters w1) + 1\<rparr>\<rparr>
           in case extract_conversation (svc_hash svc) (svc_render svc) url' of
                None \<Rightarrow> (None, w2)
              | Some conversation_data \<Rightarrow>
                  let messages' = messages conversation_data
                  in if length messages' < 1 then (None, w2)
                     else
                       let title' = generate_title (svc_clock svc) messages';
                           filename = file_name title' url';
                           filepath = ''valid_jsons/'' @ filename
                       in if \<not> svc_mkdir_ok svc then (None, w2)
                          else if \<not> svc_write_ok svc filepath then (None, w2)
                          else
                            extract_and_save_insights svc
                              (w2\<lparr>files := (files w2)(filepath \<mapsto> ConversationFile conversation_data)\<rparr>)
                              messages' filename
                              \<lparr> result_url = url',
                                conversation_file = filepath,
                                insights_file = None,
                                message_count = length messages',
                                message_types = set (map role messages'),
                                title = title' \<rparr>)"

section \<open>The background worker (app.py)\<close>

text \<open>
  One iteration of the \<open>while\<close> loop, seen from the loop: either the \<open>try\<close> body ran
  with the generated links and the gathered results (one per link, \<open>None\<close> for a
  discarded link), or it raised before the counting. \<open>sleeps\<close> lists the durations of
  the \<open>asyncio.sleep\<close> calls in order.
\<close>

datatype batch = Batch "string list" "pipeline_result option list" | BatchRaised

record worker_state =
  consecutive_failures :: nat
  sleeps :: "nat list"
  generated :: nat

definition worker_step :: "worker_state \<Rightarrow> batch \<Rightarrow> worker_state" where
  "worker_step st b =
     (case b of
        BatchRaised \<Rightarrow>
          st\<lparr>consecutive_failures := consecutive_failures st + 1, sleeps := sleeps st @ [10]\<rparr>
      | Batch links results \<Rightarrow>
          if links \<noteq> [] then
            let st1 = st\<lparr>generated := generated st + length links\<rparr>;
                successful = length (filter (\<lambda>result. result \<noteq> None) results)
            in if successful = 0 then
                 let st2 = st1\<lparr>consecutive_failures := consecutive_failures st1 + 1\<rparr>
                 in if consecutive_failures st2 \<ge> 3
                    then st2\<lparr>sleeps := sleeps st2 @ [30, 15]\<rparr>
                    else st2\<lparr>sleeps := sleeps st2 @ [15]\<rparr>
               else st1\<lparr>consecutive_failures := 0, sleeps := sleeps st1 @ [15]\<rparr>
          else st\<lparr>sleeps := sleeps st @ [15]\<rparr>)"

text \<open>
  \<open>background_worker\<close> over the iterations made while \<open>is_running\<close> was set; the
  state at entry has \<open>consecutive_failures = 0\<close>.
\<close>

definition background_worker :: "nat \<Rightarrow> batch list \<Rightarrow> worker_state" where
  "background_worker generated_before batches =
     foldl worker_step
       \<lparr>consecutive_failures = 0, sleeps = [], generated = generated_before\<rparr> batches"

section \<open>The specification's wording of three rules\<close>

text \<open>
  Structural validity in the words of the specification: the result is not empty and
  holds at least one message of role \<open>user\<close> and one of role \<open>assistant\<close>. It is
  compared below with \<open>validate_conversation_structure\<close>, the check of the source.
\<close>

definition structurally_valid :: "message list \<Rightarrow> bool" where
  "structurally_valid conversation =
     (conversation \<noteq> [] \<and> (\<exists>m \<in> set conversation. role m = ''user'')
      \<and> (\<exists>m \<in> set conversation. role m = ''assistant''))"

text \<open>
  The sentiment rule in the words of the specification, counting every occurrence of
  a word in the text. It is compared below with \<open>sentiment_of\<close>, the rule of the source.
\<close>

fun occurrences :: "string \<Rightarrow> string \<Rightarrow> nat" where
  "occurrences pat [] = 0"
| "occurrences pat (c # cs) = (if prefix pat (c # cs) then 1 else 0) + occurrences pat cs"

definition sentiment_by_occurrences :: "message list \<Rightarrow> string" where
  "sentiment_by_occurrences conversation_data =
     (let all_text = all_text_of conversation_data;
          pos_count = sum_list (map (\<lambda>word. occurrences word all_text) positive_words);
          neg_count = sum_list (map (\<lambda>word. occurrences word all_text) negative_words)
      in if pos_count > neg_count then ''positive''
         else if neg_count > pos_count then ''negative''
         else ''neutral'')"

text \<open>
  The summary fragment as the expected title of scenario A requires it: the
  punctuation \<open>.,!?\<close> is stripped from each of the first five lower-cased tokens
  first, and the alphanumeric test is applied to what is left. It is compared below
  with \<open>summary_of\<close>, where the source tests the token before it strips it.
\<close>

definition summary_strip_first :: "string \<Rightarrow> string" where
  "summary_strip_first msg =
     join ''_'' (filter isalnum (map (\<lambda>word. strip_chars ''.,!?'' (lower word))
                                     (take 5 (split_ws msg))))"

section \<open>The outcome of a run that stops after the conversation file\<close>

text \<open>
  The path of the conversation file, the path of the insights file and the result
  dict without \<open>insights_file\<close>, as \<open>process_single_link\<close> builds them from the
  messages and the link.
\<close>

definition conversation_path :: "services \<Rightarrow> message list \<Rightarrow> string \<Rightarrow> string" where
  "conversation_path svc messages' url' =
     ''valid_jsons/'' @ file_name (generate_title (svc_clock svc) messages') url'"

definition insights_path :: "services \<Rightarrow> message list \<Rightarrow> string \<Rightarrow> string" where
  "insights_path svc messages' url' =
     ''insights_json/'' @ file_name (generate_title (svc_clock svc) messages') url'"

definition transcript_only_result :: "services \<Rightarrow> message list \<Rightarrow> string \<Rightarrow> pipeline_result" where
  "transcript_only_result svc messages' url' =
     \<lparr> result_url = url',
       conversation_file = conversation_path svc messages' url',
       insights_file = None,
       message_count = length messages',
       message_types = set (map role messages'),
       title = generate_title (svc_clock svc) messages' \<rparr>"

section \<open>Example inputs\<close>

text \<open>
  Concrete conversations, documents and services on which the functions above are
  evaluated. An element built by \<open>leaf\<close> has a text and no descendants or attributes;
  \<open>turn\<close> builds a conversation turn with one avatar marker and one content element;
  \<open>two_turn_page\<close> a document whose only match for \<open>container_selector\<close> is a user
  turn followed by an assistant turn.
\<close>

definition scenario_A :: "message list" where
  "scenario_A =
     [\<lparr>role = ''user'', content = ''my name is Sam, how do I reset a password'',
       extraction_method = ''modern_selectors''\<rparr>,
      \<lparr>role = ''assistant'', content = ''Here is how: ...'',
       extraction_method = ''modern_selectors''\<rparr>]"

definition repeated_praise :: "message list" where
  "repeated_praise =
     [\<lparr>role = ''user'', content = ''good good good bad error'',
       extraction_method = ''modern_selectors''\<rparr>]"

definition leaf :: "string \<Rightarrow> element" where
  "leaf text' = Element (\<lambda>selector. Some []) (\<lambda>name. Some None) (Some text')"

definition plain_container :: element where
  "plain_container = leaf ''The weather today is sunny and warm.''"

definition turn :: "string \<Rightarrow> string \<Rightarrow> string \<Rightarrow> element" where
  "turn avatar_selector content_selector text' =
     Element (\<lambda>selector. if selector = avatar_selector then Some [leaf [] ]
                          else if selector = content_selector then Some [leaf text']
                          else Some [])
             (\<lambda>name. Some None) (Some text')"

definition two_turn_page :: "string \<Rightarrow> string \<Rightarrow> string \<Rightarrow> string \<Rightarrow> page" where
  \<open>two_turn_page container_selector content_selector user_text assistant_text =
     \<lparr> page_query_selector_all =
         (\<lambda>selector. if selector = container_selector
                      then Some [turn ''img[alt*="User"]'' content_selector user_text,
                                 turn ''img[alt*="ChatGPT"]'' content_selector assistant_text]
                      else Some []),
       page_inner_text = (\<lambda>selector. Some []) \<rparr>\<close>

definition banner_page :: page where
  \<open>banner_page = two_turn_page ''[data-testid*="conversation-turn"]'' ''.prose''
     ''The page was not found, can you help me?'' ''Here is what you can try next.''\<close>

definition all_banner_page :: page where
  \<open>all_banner_page = two_turn_page ''[data-testid*="conversation-turn"]'' ''.prose''
     ''Unable to load the conversation I shared'' ''Something went wrong, here is why''\<close>

definition alternate_layout_page :: page where
  \<open>alternate_layout_page = two_turn_page ''div[class*="group"][class*="w-full"]'' ''.message-content''
     ''my name is Sam, how do I reset a password'' ''Here is how: open the settings page''\<close>

definition length_hash :: "string \<Rightarrow> int" where
  "length_hash s = int (length s)"

definition demo_url :: string where
  "demo_url = ''https://chatgpt.com/share/6f1d2c3a-4b5e-4f70-8a9b-0c1d2e3f4a5b''"

definition demo_session :: session where
  "demo_session =
     \<lparr> transport = (\<lambda>u. Some \<lparr> final_url = u, status = 200,
                               body = Some ''<title>ChatGPT</title> a shared conversation'' \<rparr>),
       calls = [] \<rparr>"

definition demo_world :: world where
  "demo_world =
     \<lparr> sess = demo_session,
       counters = \<lparr> links_generated = 0, valid_links = 0, insights_extracted = 0,
                    failed_validations = 0 \<rparr>,
       files = Map.empty,
       insight_requests = [] \<rparr>"

definition demo_services :: "page \<Rightarrow> services" where
  "demo_services pg =
     \<lparr> svc_render = (\<lambda>u. Some pg),
       svc_hash = length_hash,
       svc_llm_post = (\<lambda>conversation. PostRaised),
       svc_json_loads = (\<lambda>s. None),
       svc_clock = ''20250101_120000'',
       svc_clock_iso = ''2025-01-01T12:00:00'',
       svc_mkdir_ok = True,
       svc_write_ok = (\<lambda>path. prefix ''valid_jsons/'' path) \<rparr>"

definition failed_batch :: batch where
  "failed_batch = Batch [demo_url] [None]"

definition demo_result :: pipeline_result where
  "demo_result =
     \<lparr> result_url = demo_url,
       conversation_file =
         ''valid_jsons/sam_my_name_is_how_6f1d2c3a-4b5e-4f70-8a9b-0c1d2e3f4a5b.json'',
       insights_file = None,
       message_count = 2,
       message_types = {''user'', ''assistant''},
       title = ''sam_my_name_is_how'' \<rparr>"

definition mixed_batch :: batch where
  "mixed_batch =
     Batch [''https://chatgpt.com/share/00000000-0000-4000-8000-000000000000'', demo_url]
           [None, Some demo_result]"

section \<open>Facts about the text primitives\<close>

text \<open>
  \<open>contains\<close> is the substring relation; matching in the lower-cased text is matching
  a substring up to case; counting the words of a duplicate-free list that occur in
  a text is counting a set.
\<close>

lemma contains_iff_sublist: "contains pat s \<longleftrightarrow> sublist pat s"
  by (induction s) (simp_all add: sublist_Cons_right)

lemma sublist_lower_iff:
  "sublist pat (lower s) \<longleftrightarrow> (\<exists>sub. sublist sub s \<and> lower sub = pat)"
  unfolding lower_def by (auto dest: sublist_map_rightE intro: map_mono_sublist)

lemma count_in_card:
  "distinct pats \<Longrightarrow> count_in pats s = card {w \<in> set pats. sublist w s}"
  unfolding count_in_def contains_iff_sublist
  by (simp add: distinct_length_filter Int_def conj_commute)

lemma distinct_positive_words: "distinct positive_words"
  by code_simp

lemma distinct_negative_words: "distinct negative_words"
  by code_simp

section \<open>Claim C1: the title of scenario A\<close>

text \<open>
  C1 expects the title \<open>sam_my_name_is_sam_how\<close> for the transcript of scenario A.
  \<open>generate_title\<close> returns \<open>sam_my_name_is_how\<close>. The name \<open>sam\<close> is found by the
  pattern \<open>my name is (\w+)\<close>, and the first five tokens are \<open>my name is Sam, how\<close>,
  as expected; but the source applies \<open>isalnum\<close> to the token as it stands and strips
  \<open>.,!?\<close> only from the tokens that passed, so \<open>Sam,\<close> is dropped and the strip never
  removes anything. Stripping before the test gives the expected summary and title.
  The fallback insight's topic, built from the same five tokens, keeps \<open>Sam,\<close>.
\<close>

theorem generate_title_scenario_A:
  "generate_title now scenario_A = ''sam_my_name_is_how''
   \<and> generate_title now scenario_A \<noteq> ''sam_my_name_is_sam_how''
   \<and> first_user_msg scenario_A = Some ''my name is Sam, how do I reset a password''
   \<and> search_patterns name_patterns (lower ''my name is Sam, how do I reset a password'') = Some ''sam''
   \<and> take 5 (split_ws ''my name is Sam, how do I reset a password'')
       = [''my'', ''name'', ''is'', ''Sam,'', ''how'']
   \<and> filter isalnum [''my'', ''name'', ''is'', ''Sam,'', ''how''] = [''my'', ''name'', ''is'', ''how'']
   \<and> map (\<lambda>word. strip_chars ''.,!?'' (lower word)) [''my'', ''name'', ''is'', ''how'']
       = [''my'', ''name'', ''is'', ''how'']
   \<and> summary_of ''my name is Sam, how do I reset a password'' = ''my_name_is_how''
   \<and> summary_strip_first ''my name is Sam, how do I reset a password'' = ''my_name_is_sam_how''
   \<and> take 50 (filter title_char
         (''sam'' @ ''_'' @ summary_strip_first ''my name is Sam, how do I reset a password''))
       = ''sam_my_name_is_sam_how''
   \<and> main_topic (generate_fallback_insights iso_now scenario_A) = ''my name is Sam, how''
   \<and> length (generate_title now scenario_A) \<le> 50
   \<and> list_all title_char (generate_title now scenario_A)"
  by code_simp

section \<open>Claim C2: the fallback sentiment\<close>

text \<open>
  C2, as stated, at a conversation where \<open>good\<close> occurs three times and \<open>bad\<close> and
  \<open>error\<close> once each: counting occurrences gives \<open>positive\<close>, the fallback insight's
  sentiment is \<open>negative\<close>.
\<close>

theorem sentiment_counts_words_not_occurrences:
  "occurrences ''good'' (all_text_of repeated_praise) = 3
   \<and> occurrences ''bad'' (all_text_of repeated_praise) = 1
   \<and> occurrences ''error'' (all_text_of repeated_praise) = 1
   \<and> sentiment_by_occurrences repeated_praise = ''positive''
   \<and> sentiment (generate_fallback_insights ''2025-01-01T12:00:00'' repeated_praise) = ''negative''"
  by code_simp

text \<open>
  C2, amended: for every message list the fallback insight's sentiment compares the
  number of words of the positive list that occur at least once in the text with the
  number of words of the negative list that occur at least once (each word counts
  once, however often it occurs, so each count is at most 6); the larger count wins
  and a tie gives \<open>neutral\<close>. The text is the lower-cased join of the user messages
  followed by the assistant messages.
\<close>

theorem fallback_sentiment_by_distinct_words:
  "sentiment (generate_fallback_insights now conversation_data) =
     (let pos_count = card {w \<in> set positive_words. sublist w (all_text_of conversation_data)};
          neg_count = card {w \<in> set negative_words. sublist w (all_text_of conversation_data)}
      in if pos_count > neg_count then ''positive''
         else if neg_count > pos_count then ''negative''
         else ''neutral'')
   \<and> all_text_of conversation_data =
       lower (join '' '' (map content (filter (\<lambda>msg. role msg = ''user'') conversation_data)
                         @ map content (filter (\<lambda>msg. role msg = ''assistant'') conversation_data)))
   \<and> card {w \<in> set positive_words. sublist w (all_text_of conversation_data)} \<le> 6
   \<and> card {w \<in> set negative_words. sublist w (all_text_of conversation_data)} \<le> 6"
proof -
  have p: "count_in positive_words (all_text_of conversation_data)
           = card {w \<in> set positive_words. sublist w (all_text_of conversation_data)}"
    by (rule count_in_card [OF distinct_positive_words])
  have n: "count_in negative_words (all_text_of conversation_data)
           = card {w \<in> set negative_words. sublist w (all_text_of conversation_data)}"
    by (rule count_in_card [OF distinct_negative_words])
  have lp: "count_in positive_words (all_text_of conversation_data) \<le> 6"
    unfolding count_in_def
    by (rule order_trans [OF length_filter_le]) (simp add: positive_words_def)
  have ln: "count_in negative_words (all_text_of conversation_data) \<le> 6"
    unfolding count_in_def
    by (rule order_trans [OF length_filter_le]) (simp add: negative_words_def)
  have s: "sentiment (generate_fallback_insights now conversation_data)
           = sentiment_of conversation_data"
    by (simp add: generate_fallback_insights_def Let_def)
  have t: "all_text_of conversation_data =
       lower (join '' '' (map content (filter (\<lambda>msg. role msg = ''user'') conversation_data)
                         @ map content (filter (\<lambda>msg. role msg = ''assistant'') conversation_data)))"
    by (simp add: all_text_of_def user_messages_of_def assistant_messages_of_def)
  show ?thesis
    apply (intro conjI)
       apply (simp only: s sentiment_of_def Let_def p n)
      apply (rule t)
     apply (rule lp [unfolded p])
    apply (rule ln [unfolded n])
    done
qed

section \<open>Claim C3: the role of a container without signals\<close>

text \<open>
  Without avatar markers and without a role indicator in the \<open>class\<close> and
  \<open>data-testid\<close> attributes, the role is decided by the container's text alone; the
  keyword scoring never answers \<open>unknown\<close>.
\<close>

lemma guess_role_not_unknown: "guess_role_from_content text' position \<noteq> ''unknown''"
  by (simp add: guess_role_from_content_def Let_def)

lemma guess_role_no_keywords:
  "count_in user_patterns (lower text') = 0 \<Longrightarrow> count_in assistant_patterns (lower text') = 0
   \<Longrightarrow> guess_role_from_content text' 0 = ''user''"
  by (simp add: guess_role_from_content_def Let_def)

lemma determine_role_improved_no_markers:
  assumes "any_selector_matches container user_avatar_selectors = Some False"
    and "any_selector_matches container assistant_avatar_selectors = Some False"
    and "get_attribute container ''class'' = Some cls"
    and "get_attribute container ''data-testid'' = Some testid"
    and "\<not> any_in [''user'', ''human''] (lower (or_empty cls @ or_empty testid))"
    and "\<not> any_in [''assistant'', ''ai'', ''chatgpt'', ''bot'']
              (lower (or_empty cls @ or_empty testid))"
  shows "determine_role_improved container =
           (case inner_text container of
              None \<Rightarrow> ''unknown''
            | Some text' \<Rightarrow> if text' \<noteq> [] then guess_role_from_content text' 0 else ''unknown'')"
  using assms by (simp add: determine_role_improved_def Let_def)

text \<open>
  C3, as stated, at a container with no avatar marker, no attributes and the text
  \<open>The weather today is sunny and warm.\<close>, which holds no requester and no responder
  phrase: the result is \<open>user\<close>, not \<open>unknown\<close>.
\<close>

theorem classify_plain_text_is_user:
  "any_selector_matches plain_container user_avatar_selectors = Some False
   \<and> any_selector_matches plain_container assistant_avatar_selectors = Some False
   \<and> get_attribute plain_container ''class'' = Some None
   \<and> get_attribute plain_container ''data-testid'' = Some None
   \<and> inner_text plain_container = Some ''The weather today is sunny and warm.''
   \<and> count_in user_patterns (lower ''The weather today is sunny and warm.'') = 0
   \<and> count_in assistant_patterns (lower ''The weather today is sunny and warm.'') = 0
   \<and> determine_role_improved plain_container = ''user''
   \<and> determine_role_improved plain_container \<noteq> ''unknown''"
  by code_simp

text \<open>
  C3, amended: for every container with no user or assistant avatar marker and no
  role indicator in its \<open>class\<close> and \<open>data-testid\<close> attributes,
  \<open>_determine_role_improved\<close> returns \<open>unknown\<close> exactly when the container's text is
  empty or reading it raises; when the text is not empty and holds no requester and
  no responder phrase, the tie is broken at position 0 and the result is \<open>user\<close>.
\<close>

theorem determine_role_improved_without_signals:
  assumes "any_selector_matches container user_avatar_selectors = Some False"
    and "any_selector_matches container assistant_avatar_selectors = Some False"
    and "get_attribute container ''class'' = Some cls"
    and "get_attribute container ''data-testid'' = Some testid"
    and "\<not> any_in [''user'', ''human''] (lower (or_empty cls @ or_empty testid))"
    and "\<not> any_in [''assistant'', ''ai'', ''chatgpt'', ''bot'']
              (lower (or_empty cls @ or_empty testid))"
  shows "(determine_role_improved container = ''unknown''
            \<longleftrightarrow> inner_text container = None \<or> inner_text container = Some [])
         \<and> (\<forall>text'. inner_text container = Some text' \<and> text' \<noteq> []
                \<and> count_in user_patterns (lower text') = 0
                \<and> count_in assistant_patterns (lower text') = 0
              \<longrightarrow> determine_role_improved container = ''user'')"
proof -
  note eq = determine_role_improved_no_markers [OF assms]
  show ?thesis
  proof (cases "inner_text container")
    case None
    with eq show ?thesis by simp
  next
    case (Some text')
    with eq show ?thesis
      by (cases "text' = []") (simp_all add: guess_role_not_unknown guess_role_no_keywords)
  qed
qed

text \<open>
  The amended C3 at two containers: the plain one above, and one with an empty text.
\<close>

theorem determine_role_improved_without_signals_witness:
  "(determine_role_improved plain_container = ''unknown''
      \<longleftrightarrow> inner_text plain_container = None \<or> inner_text plain_container = Some [])
   \<and> determine_role_improved plain_container = ''user''
   \<and> determine_role_improved (leaf []) = ''unknown''"
proof -
  have h1: "any_selector_matches plain_container user_avatar_selectors = Some False" by code_simp
  have h2: "any_selector_matches plain_container assistant_avatar_selectors = Some False"
    by code_simp
  have h3: "get_attribute plain_container ''class'' = Some None" by code_simp
  have h4: "get_attribute plain_container ''data-testid'' = Some None" by code_simp
  have h5: "\<not> any_in [''user'', ''human''] (lower (or_empty None @ or_empty None))"
    by code_simp
  have h6: "\<not> any_in [''assistant'', ''ai'', ''chatgpt'', ''bot'']
               (lower (or_empty None @ or_empty None))"
    by code_simp
  have t: "inner_text plain_container = Some ''The weather today is sunny and warm.''"
    by code_simp
  have k1: "count_in user_patterns (lower ''The weather today is sunny and warm.'') = 0"
    by code_simp
  have k2: "count_in assistant_patterns (lower ''The weather today is sunny and warm.'') = 0"
    by code_simp
  have g1: "any_selector_matches (leaf []) user_avatar_selectors = Some False" by code_simp
  have g2: "any_selector_matches (leaf []) assistant_avatar_selectors = Some False" by code_simp
  have g3: "get_attribute (leaf []) ''class'' = Some None" by code_simp
  have g4: "get_attribute (leaf []) ''data-testid'' = Some None" by code_simp
  have g5: "inner_text (leaf []) = Some []" by code_simp
  note a = determine_role_improved_without_signals [OF h1 h2 h3 h4 h5 h6]
  note b = determine_role_improved_without_signals [OF g1 g2 g3 g4 h5 h6]
  from a t k1 k2 have "determine_role_improved plain_container = ''user''" by blast
  moreover from b g5 have "determine_role_improved (leaf []) = ''unknown''" by blast
  ultimately show ?thesis using a by blast
qed

section \<open>Claim C4: consecutive failures and the cooldown\<close>

text \<open>
  One iteration on a batch without success and on a batch with a success, and a run
  of \<open>n\<close> batches without success from any state.
\<close>

lemma worker_step_failed:
  assumes "links \<noteq> []" and "list_all (\<lambda>result. result = None) results"
  shows "worker_step st (Batch links results) =
           st\<lparr>generated := generated st + length links,
              consecutive_failures := consecutive_failures st + 1,
              sleeps := sleeps st @ (if consecutive_failures st + 1 \<ge> 3 then [30, 15] else [15])\<rparr>"
proof -
  from assms(2) have "filter (\<lambda>result. result \<noteq> None) results = []"
    by (simp add: filter_empty_conv list_all_iff)
  with assms(1) show ?thesis
    by (simp add: worker_step_def Let_def)
qed

lemma worker_step_succeeded:
  assumes "links \<noteq> []" and "\<not> list_all (\<lambda>result. result = None) results"
  shows "worker_step st (Batch links results) =
           st\<lparr>generated := generated st + length links,
              consecutive_failures := 0,
              sleeps := sleeps st @ [15]\<rparr>"
proof -
  from assms(2) have "filter (\<lambda>result. result \<noteq> None) results \<noteq> []"
    by (simp add: filter_empty_conv list_all_iff)
  with assms(1) show ?thesis
    by (simp add: worker_step_def Let_def)
qed

lemma failed_run_from:
  assumes "links \<noteq> []" and "list_all (\<lambda>result. result = None) results"
  shows "consecutive_failures (foldl worker_step st (replicate n (Batch links results)))
           = consecutive_failures st + n
         \<and> count_list (sleeps (foldl worker_step st (replicate n (Batch links results)))) 30
           = count_list (sleeps st) 30 + (consecutive_failures st + n - max 2 (consecutive_failures st))"
proof (induction n arbitrary: st)
  case 0
  show ?case by simp
next
  case (Suc n)
  define st' where "st' = worker_step st (Batch links results)"
  have cf: "consecutive_failures st' = consecutive_failures st + 1"
    unfolding st'_def by (simp add: worker_step_failed [OF assms])
  have sl: "count_list (sleeps st') 30
              = count_list (sleeps st) 30 + (if consecutive_failures st + 1 \<ge> 3 then 1 else 0)"
    unfolding st'_def by (simp add: worker_step_failed [OF assms])
  have "foldl worker_step st (replicate (Suc n) (Batch links results))
          = foldl worker_step st' (replicate n (Batch links results))"
    unfolding st'_def by simp
  then show ?case
    using Suc.IH [of st'] cf sl by (auto simp add: max_def)
qed

text \<open>
  C4, as stated, at four consecutive batches without success: the 30 second cooldown
  is slept after the third and again after the fourth batch, twice and not once.
\<close>

theorem cooldown_fires_on_every_later_failed_batch:
  "sleeps (background_worker 0 [failed_batch, failed_batch, failed_batch, failed_batch])
     = [15, 15, 30, 15, 30, 15]
   \<and> consecutive_failures
       (background_worker 0 [failed_batch, failed_batch, failed_batch, failed_batch]) = 4
   \<and> count_list
       (sleeps (background_worker 0 [failed_batch, failed_batch, failed_batch, failed_batch])) 30
     \<noteq> 1"
  by code_simp

text \<open>
  C4, amended: a batch of links without any success adds one to the
  consecutive-failure counter, and the 30 second cooldown is slept after every such
  batch that leaves the counter at 3 or more (so after the third and after each
  further batch without success, \<open>n - 2\<close> times in \<open>n\<close> such batches from the start);
  a batch with at least one success sets the counter to 0 and sleeps the inter-batch
  interval only.
\<close>

theorem cooldown_after_each_failed_batch_from_third:
  assumes "links \<noteq> []"
  shows "(list_all (\<lambda>result. result = None) results \<longrightarrow>
            consecutive_failures (worker_step st (Batch links results))
              = consecutive_failures st + 1
            \<and> sleeps (worker_step st (Batch links results))
              = sleeps st @ (if consecutive_failures st + 1 \<ge> 3 then [30, 15] else [15])
            \<and> consecutive_failures (background_worker g (replicate n (Batch links results))) = n
            \<and> count_list (sleeps (background_worker g (replicate n (Batch links results)))) 30
              = n - 2)
         \<and> (\<not> list_all (\<lambda>result. result = None) results \<longrightarrow>
            consecutive_failures (worker_step st (Batch links results)) = 0
            \<and> sleeps (worker_step st (Batch links results)) = sleeps st @ [15])"
proof (intro conjI impI)
  assume f: "list_all (\<lambda>result. result = None) results"
  show "consecutive_failures (worker_step st (Batch links results)) = consecutive_failures st + 1"
    by (simp add: worker_step_failed [OF assms f])
  show "sleeps (worker_step st (Batch links results))
          = sleeps st @ (if consecutive_failures st + 1 \<ge> 3 then [30, 15] else [15])"
    by (simp add: worker_step_failed [OF assms f])
  show "consecutive_failures (background_worker g (replicate n (Batch links results))) = n"
    unfolding background_worker_def using failed_run_from [OF assms f] by simp
  show "count_list (sleeps (background_worker g (replicate n (Batch links results)))) 30 = n - 2"
    unfolding background_worker_def using failed_run_from [OF assms f] by simp
next
  assume s: "\<not> list_all (\<lambda>result. result = None) results"
  show "consecutive_failures (worker_step st (Batch links results)) = 0"
    by (simp add: worker_step_succeeded [OF assms s])
  show "sleeps (worker_step st (Batch links results)) = sleeps st @ [15]"
    by (simp add: worker_step_succeeded [OF assms s])
qed

text \<open>
  The amended C4 at five batches without success followed by a batch with a success.
\<close>

theorem cooldown_after_each_failed_batch_from_third_witness:
  "consecutive_failures (background_worker 0 (replicate 5 failed_batch)) = 5
   \<and> count_list (sleeps (background_worker 0 (replicate 5 failed_batch))) 30 = 3
   \<and> consecutive_failures
       (worker_step (background_worker 0 (replicate 5 failed_batch)) mixed_batch) = 0"
proof -
  have l: "[demo_url] \<noteq> []" by simp
  have f: "list_all (\<lambda>result. result = None) [None :: pipeline_result option]" by simp
  have l': "[''https://chatgpt.com/share/00000000-0000-4000-8000-000000000000'', demo_url] \<noteq> []"
    by simp
  have s: "\<not> list_all (\<lambda>result. result = None) [None, Some demo_result]"
    by simp
  from cooldown_after_each_failed_batch_from_third [OF l, of "[None]" _ 0 5] f
  have a: "consecutive_failures (background_worker 0 (replicate 5 (Batch [demo_url] [None]))) = 5
           \<and> count_list (sleeps (background_worker 0 (replicate 5 (Batch [demo_url] [None])))) 30
             = 5 - 2"
    by blast
  from cooldown_after_each_failed_batch_from_third
         [OF l', of "[None, Some demo_result]" "background_worker 0 (replicate 5 failed_batch)"] s
  have b: "consecutive_failures
             (worker_step (background_worker 0 (replicate 5 failed_batch))
                (Batch [''https://chatgpt.com/share/00000000-0000-4000-8000-000000000000'', demo_url]
                       [None, Some demo_result])) = 0"
    by blast
  from a b show ?thesis
    by (simp add: failed_batch_def mixed_batch_def)
qed

section \<open>Claim C5: the first valid strategy wins\<close>

text \<open>
  The check of the source is structural validity as the specification words it, and
  the loop over the strategies returns the first output that passes it.
\<close>

lemma validate_iff_structurally_valid:
  "validate_conversation_structure conversation \<longleftrightarrow> structurally_valid conversation"
  unfolding validate_conversation_structure_def structurally_valid_def Let_def set_map image_iff
  by (cases "conversation = []") (simp, simp, metis)

lemma try_strategies_first_valid:
  "try_strategies ss pg =
     (case List.find (\<lambda>out. case out of None \<Rightarrow> False | Some c \<Rightarrow> structurally_valid c)
             (map (\<lambda>strategy. strategy pg) ss) of
        Some (Some conversation) \<Rightarrow> conversation
      | _ \<Rightarrow> [])"
proof (induction ss)
  case Nil
  show ?case by simp
next
  case (Cons strategy rest)
  show ?case
  proof (cases "strategy pg")
    case None
    with Cons show ?thesis by simp
  next
    case (Some conversation)
    have "conversation \<noteq> [] \<and> validate_conversation_structure conversation
            \<longleftrightarrow> structurally_valid conversation"
      by (auto simp add: validate_iff_structurally_valid structurally_valid_def)
    with Some Cons show ?thesis by simp
  qed
qed

text \<open>
  C5: \<open>_extract_with_multiple_strategies\<close> tries the five strategies in their fixed
  order and returns the first output that is structurally valid (not empty, with at
  least one \<open>user\<close> and one \<open>assistant\<close> message), and the empty list when there is
  none. In particular, when the first strategy raises or gives no valid output and
  the second gives a valid one, the result is the output of the second.
\<close>

theorem first_valid_strategy_wins:
  "strategies str_hash =
     [strategy_modern_selectors, strategy_alternative_selectors, strategy_generic_selectors,
      strategy_structured_extraction str_hash, strategy_fallback]
   \<and> extract_with_multiple_strategies str_hash pg =
       (case List.find (\<lambda>out. case out of None \<Rightarrow> False | Some c \<Rightarrow> structurally_valid c)
               (map (\<lambda>strategy. strategy pg) (strategies str_hash)) of
          Some (Some conversation) \<Rightarrow> conversation
        | _ \<Rightarrow> [])
   \<and> ((strategy_modern_selectors pg = None
         \<or> (\<exists>first. strategy_modern_selectors pg = Some first \<and> \<not> structurally_valid first))
        \<and> strategy_alternative_selectors pg = Some second \<and> structurally_valid second
        \<longrightarrow> extract_with_multiple_strategies str_hash pg = second)"
proof (intro conjI impI)
  show "strategies str_hash =
     [strategy_modern_selectors, strategy_alternative_selectors, strategy_generic_selectors,
      strategy_structured_extraction str_hash, strategy_fallback]"
    by (simp add: strategies_def)
  show "extract_with_multiple_strategies str_hash pg =
       (case List.find (\<lambda>out. case out of None \<Rightarrow> False | Some c \<Rightarrow> structurally_valid c)
               (map (\<lambda>strategy. strategy pg) (strategies str_hash)) of
          Some (Some conversation) \<Rightarrow> conversation
        | _ \<Rightarrow> [])"
    unfolding extract_with_multiple_strategies_def by (rule try_strategies_first_valid)
next
  assume a: "(strategy_modern_selectors pg = None
         \<or> (\<exists>first. strategy_modern_selectors pg = Some first \<and> \<not> structurally_valid first))
        \<and> strategy_alternative_selectors pg = Some second \<and> structurally_valid second"
  then show "extract_with_multiple_strategies str_hash pg = second"
    unfolding extract_with_multiple_strategies_def try_strategies_first_valid strategies_def
    by auto
qed

text \<open>
  C5 at a document of the alternate layout: the first strategy finds no container,
  the second extracts a user and an assistant message, which is the result.
\<close>

lemma alternate_layout_strategy1:
  "strategy_modern_selectors alternate_layout_page = Some []"
  by code_simp

lemma alternate_layout_strategy2:
  "strategy_alternative_selectors alternate_layout_page =
     Some [\<lparr>role = ''user'', content = ''my name is Sam, how do I reset a password'',
            extraction_method = ''alternative_selectors''\<rparr>,
           \<lparr>role = ''assistant'', content = ''Here is how: open the settings page'',
            extraction_method = ''alternative_selectors''\<rparr>]"
  by code_simp

theorem first_valid_strategy_wins_witness:
  "extract_with_multiple_strategies length_hash alternate_layout_page =
     [\<lparr>role = ''user'', content = ''my name is Sam, how do I reset a password'',
       extraction_method = ''alternative_selectors''\<rparr>,
      \<lparr>role = ''assistant'', content = ''Here is how: open the settings page'',
       extraction_method = ''alternative_selectors''\<rparr>]
   \<and> strategy_modern_selectors alternate_layout_page = Some []
   \<and> \<not> structurally_valid []"
proof -
  have v1: "\<not> structurally_valid []"
    by (simp add: structurally_valid_def)
  have v2: "structurally_valid
              [\<lparr>role = ''user'', content = ''my name is Sam, how do I reset a password'',
                extraction_method = ''alternative_selectors''\<rparr>,
               \<lparr>role = ''assistant'', content = ''Here is how: open the settings page'',
                extraction_method = ''alternative_selectors''\<rparr>]"
    by (simp add: structurally_valid_def)
  from first_valid_strategy_wins [of length_hash alternate_layout_page]
    alternate_layout_strategy1 alternate_layout_strategy2 v1 v2
  show ?thesis by blast
qed

section \<open>Facts about conversation extraction\<close>

text \<open>
  A message is an error banner when a substring of its content equals one of the
  fixed phrases up to case. \<open>extract_conversation\<close> by cases, and its parts on the
  example documents.
\<close>

lemma is_error_message_iff:
  "is_error_message msg \<longleftrightarrow>
     (\<exists>pat \<in> set error_patterns. \<exists>sub. sublist sub (content msg) \<and> lower sub = pat)"
  by (simp add: is_error_message_def any_in_def list_ex_iff contains_iff_sublist
      sublist_lower_iff)

lemma extract_conversation_cases:
  "extract_conversation str_hash render url' =
     (case render url' of
        None \<Rightarrow> None
      | Some pg \<Rightarrow>
          let kept = filter (\<lambda>msg. \<not> is_error_message msg)
                       (extract_with_multiple_strategies str_hash pg)
          in if kept = [] then None
             else Some \<lparr> url = url', messages = kept,
                         metadata = \<lparr> total_messages = length kept,
                           user_messages = length (filter (\<lambda>msg. role msg = ''user'') kept),
                           assistant_messages =
                             length (filter (\<lambda>msg. role msg = ''assistant'') kept),
                           meta_extraction_method = ''playwright_multi_strategy'' \<rparr> \<rparr>)"
  by (simp add: extract_conversation_def Let_def split: option.splits)

lemma banner_page_strategies:
  "extract_with_multiple_strategies length_hash banner_page =
     [\<lparr>role = ''user'', content = ''The page was not found, can you help me?'',
       extraction_method = ''modern_selectors''\<rparr>,
      \<lparr>role = ''assistant'', content = ''Here is what you can try next.'',
       extraction_method = ''modern_selectors''\<rparr>]"
  by code_simp

lemma banner_page_kept:
  "filter (\<lambda>msg. \<not> is_error_message msg) (extract_with_multiple_strategies length_hash banner_page)
     = [\<lparr>role = ''assistant'', content = ''Here is what you can try next.'',
          extraction_method = ''modern_selectors''\<rparr>]"
  by code_simp

lemma all_banner_page_kept:
  "filter (\<lambda>msg. \<not> is_error_message msg)
     (extract_with_multiple_strategies length_hash all_banner_page) = []"
  by code_simp

lemma alternate_layout_conversation:
  "extract_conversation length_hash (\<lambda>u. Some alternate_layout_page) demo_url =
     Some \<lparr> url = demo_url,
            messages =
              [\<lparr>role = ''user'', content = ''my name is Sam, how do I reset a password'',
                extraction_method = ''alternative_selectors''\<rparr>,
               \<lparr>role = ''assistant'', content = ''Here is how: open the settings page'',
                extraction_method = ''alternative_selectors''\<rparr>],
            metadata = \<lparr> total_messages = 2, user_messages = 1, assistant_messages = 1,
                         meta_extraction_method = ''playwright_multi_strategy'' \<rparr> \<rparr>"
  by code_simp

section \<open>Claim C6: error banners are filtered out\<close>

text \<open>
  C6: a message is dropped exactly when its content contains, as a substring and up
  to case, one of the fixed error-banner phrases. The transcript returned holds the
  output of the chosen strategy without those messages; when nothing is left (or the
  page cannot be rendered) the result is \<open>None\<close>, a value and not an exception.
\<close>

theorem error_banners_filtered_or_absent:
  "(is_error_message msg \<longleftrightarrow>
      (\<exists>pat \<in> set error_patterns. \<exists>sub. sublist sub (content msg) \<and> lower sub = pat))
   \<and> (case render url' of
         None \<Rightarrow> extract_conversation str_hash render url' = None
       | Some pg \<Rightarrow>
           if filter (\<lambda>msg. \<not> is_error_message msg)
                (extract_with_multiple_strategies str_hash pg) = []
           then extract_conversation str_hash render url' = None
           else (\<exists>t. extract_conversation str_hash render url' = Some t
                   \<and> messages t = filter (\<lambda>msg. \<not> is_error_message msg)
                                    (extract_with_multiple_strategies str_hash pg)
                   \<and> list_all (\<lambda>msg. \<not> is_error_message msg) (messages t)))"
proof (rule conjI)
  show "is_error_message msg \<longleftrightarrow>
      (\<exists>pat \<in> set error_patterns. \<exists>sub. sublist sub (content msg) \<and> lower sub = pat)"
    by (rule is_error_message_iff)
  show "case render url' of
         None \<Rightarrow> extract_conversation str_hash render url' = None
       | Some pg \<Rightarrow>
           if filter (\<lambda>msg. \<not> is_error_message msg)
                (extract_with_multiple_strategies str_hash pg) = []
           then extract_conversation str_hash render url' = None
           else (\<exists>t. extract_conversation str_hash render url' = Some t
                   \<and> messages t = filter (\<lambda>msg. \<not> is_error_message msg)
                                    (extract_with_multiple_strategies str_hash pg)
                   \<and> list_all (\<lambda>msg. \<not> is_error_message msg) (messages t))"
    unfolding extract_conversation_cases
    by (simp add: Let_def list_all_iff split: option.splits)
qed

text \<open>
  C6 at three renderings: a document where the user message is a banner and the
  assistant message stays, one where both messages are banners, and a failed rendering.
\<close>

theorem error_banners_filtered_or_absent_witness:
  "(\<exists>t. extract_conversation length_hash (\<lambda>u. Some banner_page) demo_url = Some t
        \<and> messages t = [\<lparr>role = ''assistant'', content = ''Here is what you can try next.'',
                          extraction_method = ''modern_selectors''\<rparr>])
   \<and> extract_conversation length_hash (\<lambda>u. Some all_banner_page) demo_url = None
   \<and> extract_conversation length_hash (\<lambda>u. None) demo_url = None"
proof -
  from error_banners_filtered_or_absent
         [where render = "\<lambda>u. Some banner_page" and url' = demo_url and str_hash = length_hash,
          THEN conjunct2]
  have a: "\<exists>t. extract_conversation length_hash (\<lambda>u. Some banner_page) demo_url = Some t
        \<and> messages t = [\<lparr>role = ''assistant'', content = ''Here is what you can try next.'',
                          extraction_method = ''modern_selectors''\<rparr>]"
    by (auto simp add: banner_page_kept)
  from error_banners_filtered_or_absent
         [where render = "\<lambda>u. Some all_banner_page" and url' = demo_url
            and str_hash = length_hash, THEN conjunct2]
  have b: "extract_conversation length_hash (\<lambda>u. Some all_banner_page) demo_url = None"
    by (simp add: all_banner_page_kept)
  from error_banners_filtered_or_absent
         [where render = "\<lambda>u. None" and url' = demo_url and str_hash = length_hash,
          THEN conjunct2]
  have c: "extract_conversation length_hash (\<lambda>u. None) demo_url = None"
    by simp
  from a b c show ?thesis by blast
qed

section \<open>Claim C9: the metadata agree with the messages\<close>

text \<open>
  C9: in every transcript returned by \<open>extract_conversation\<close>, \<open>total_messages\<close> is
  the length of \<open>messages\<close>, \<open>user_messages\<close> the number of messages of role \<open>user\<close>
  and \<open>assistant_messages\<close> the number of messages of role \<open>assistant\<close>, where
  \<open>messages\<close> is the filtered list that the transcript stores.
\<close>

theorem extract_conversation_metadata_consistent:
  assumes "extract_conversation str_hash render url' = Some t"
  shows "total_messages (metadata t) = length (messages t)
         \<and> user_messages (metadata t) = length (filter (\<lambda>msg. role msg = ''user'') (messages t))
         \<and> assistant_messages (metadata t)
             = length (filter (\<lambda>msg. role msg = ''assistant'') (messages t))
         \<and> (\<exists>pg. render url' = Some pg
               \<and> messages t = filter (\<lambda>msg. \<not> is_error_message msg)
                                (extract_with_multiple_strategies str_hash pg))"
  using assms unfolding extract_conversation_cases
  by (auto simp add: Let_def split: option.splits if_splits)

text \<open>C9 at the document of the alternate layout, whose transcript has two messages.\<close>

theorem extract_conversation_metadata_consistent_witness:
  "(\<exists>t. extract_conversation length_hash (\<lambda>u. Some alternate_layout_page) demo_url = Some t
        \<and> total_messages (metadata t) = length (messages t)
        \<and> total_messages (metadata t) = 2
        \<and> user_messages (metadata t) = length (filter (\<lambda>msg. role msg = ''user'') (messages t))
        \<and> user_messages (metadata t) = 1
        \<and> assistant_messages (metadata t)
            = length (filter (\<lambda>msg. role msg = ''assistant'') (messages t))
        \<and> assistant_messages (metadata t) = 1)"
proof -
  let ?t = "\<lparr> url = demo_url,
            messages =
              [\<lparr>role = ''user'', content = ''my name is Sam, how do I reset a password'',
                extraction_method = ''alternative_selectors''\<rparr>,
               \<lparr>role = ''assistant'', content = ''Here is how: open the settings page'',
                extraction_method = ''alternative_selectors''\<rparr>],
            metadata = \<lparr> total_messages = 2, user_messages = 1, assistant_messages = 1,
                         meta_extraction_method = ''playwright_multi_strategy'' \<rparr> \<rparr>"
  have e: "extract_conversation length_hash (\<lambda>u. Some alternate_layout_page) demo_url = Some ?t"
    by (rule alternate_layout_conversation)
  from extract_conversation_metadata_consistent [OF e]
  have p: "total_messages (metadata ?t) = length (messages ?t)
           \<and> user_messages (metadata ?t)
               = length (filter (\<lambda>msg. role msg = ''user'') (messages ?t))
           \<and> assistant_messages (metadata ?t)
               = length (filter (\<lambda>msg. role msg = ''assistant'') (messages ?t))"
    by blast
  have q: "total_messages (metadata ?t) = 2 \<and> user_messages (metadata ?t) = 1
           \<and> assistant_messages (metadata ?t) = 1"
    by simp
  from e p q show ?thesis by blast
qed

section \<open>Claim C7: a malformed locator is rejected without a request\<close>

text \<open>A locator that passes both format checks is requested through the session.\<close>

lemma well_formed_locator_is_requested:
  assumes "prefix ''https://chatgpt.com/share/'' url'"
    and "length (last (split ''/'' url')) \<ge> 20"
  shows "calls (snd (improved_validate_link ses url')) = calls ses @ [url']"
  using assms by (simp add: improved_validate_link_def Let_def split: option.splits)

text \<open>
  C7: for every locator that does not start with \<open>https://chatgpt.com/share/\<close> or
  whose last path segment has fewer than 20 characters, \<open>improved_validate_link\<close>
  returns \<open>False\<close> and leaves the session as it was: no request is recorded, and the
  verdict does not depend on what the transport would answer.
\<close>

theorem malformed_locator_rejected_without_request:
  assumes "\<not> prefix ''https://chatgpt.com/share/'' url'
           \<or> length (last (split ''/'' url')) < 20"
  shows "improved_validate_link ses url' = (False, ses)
         \<and> calls (snd (improved_validate_link ses url')) = calls ses
         \<and> improved_validate_link (ses\<lparr>transport := other_transport\<rparr>) url'
             = (False, ses\<lparr>transport := other_transport\<rparr>)"
  using assms by (auto simp add: improved_validate_link_def Let_def)

text \<open>
  C7 at a locator with a wrong prefix and at one with a short suffix; a well-formed
  locator, in contrast, is requested once.
\<close>

theorem malformed_locator_rejected_without_request_witness:
  "improved_validate_link demo_session ''http://example.org/share/6f1d2c3a-4b5e-4f70-8a9b-0c1d2e3f4a5b''
     = (False, demo_session)
   \<and> improved_validate_link demo_session ''https://chatgpt.com/share/6f1d2c3a'' = (False, demo_session)
   \<and> calls (snd (improved_validate_link demo_session ''https://chatgpt.com/share/6f1d2c3a'')) = []
   \<and> calls (snd (improved_validate_link demo_session demo_url)) = [demo_url]"
proof -
  have h1: "\<not> prefix ''https://chatgpt.com/share/''
               ''http://example.org/share/6f1d2c3a-4b5e-4f70-8a9b-0c1d2e3f4a5b''
            \<or> length (last (split ''/''
                 ''http://example.org/share/6f1d2c3a-4b5e-4f70-8a9b-0c1d2e3f4a5b'')) < 20"
    by code_simp
  have h2: "\<not> prefix ''https://chatgpt.com/share/'' ''https://chatgpt.com/share/6f1d2c3a''
            \<or> length (last (split ''/'' ''https://chatgpt.com/share/6f1d2c3a'')) < 20"
    by code_simp
  have c: "calls demo_session = []"
    by (simp add: demo_session_def)
  have d: "calls (snd (improved_validate_link demo_session demo_url)) = [demo_url]"
    by code_simp
  from malformed_locator_rejected_without_request [OF h1, of demo_session]
       malformed_locator_rejected_without_request [OF h2, of demo_session] c d
  show ?thesis by simp
qed

section \<open>Claim C10: an imbalanced transcript is returned\<close>

text \<open>
  The document \<open>banner_page\<close>: its user message contains the phrase \<open>not found\<close>. The
  first strategy's output is structurally valid, the filter removes the user message,
  and the pipeline goes on with the assistant message alone.
\<close>

lemma banner_page_valid_before_filter:
  "validate_conversation_structure (extract_with_multiple_strategies length_hash banner_page)"
  by code_simp

lemma banner_page_conversation:
  "extract_conversation length_hash (\<lambda>u. Some banner_page) demo_url =
     Some \<lparr> url = demo_url,
            messages = [\<lparr>role = ''assistant'', content = ''Here is what you can try next.'',
                         extraction_method = ''modern_selectors''\<rparr>],
            metadata = \<lparr> total_messages = 1, user_messages = 0, assistant_messages = 1,
                         meta_extraction_method = ''playwright_multi_strategy'' \<rparr> \<rparr>"
  by code_simp

lemma banner_page_pipeline:
  "fst (process_single_link (demo_services banner_page) demo_world demo_url) =
     Some \<lparr> result_url = demo_url,
            conversation_file =
              ''valid_jsons/conversation_20250101_120000_6f1d2c3a-4b5e-4f70-8a9b-0c1d2e3f4a5b.json'',
            insights_file = None,
            message_count = 1,
            message_types = {''assistant''},
            title = ''conversation_20250101_120000'' \<rparr>"
  by code_simp

text \<open>
  C10: for some rendered document the strategy output passes the structural check,
  the error-banner filter then removes every message of role \<open>user\<close> and keeps
  another, and \<open>extract_conversation\<close> returns the non-empty transcript without a
  user message; \<open>process_single_link\<close> does not discard it and returns a result.
\<close>

theorem imbalanced_transcript_is_returned:
  "\<exists>pg. validate_conversation_structure (extract_with_multiple_strategies length_hash pg)
      \<and> (\<exists>t. extract_conversation length_hash (\<lambda>u. Some pg) demo_url = Some t
             \<and> messages t \<noteq> []
             \<and> ''user'' \<notin> set (map role (messages t))
             \<and> messages t = filter (\<lambda>msg. \<not> is_error_message msg)
                              (extract_with_multiple_strategies length_hash pg)
             \<and> length (messages t) < length (extract_with_multiple_strategies length_hash pg))
      \<and> (\<exists>r. fst (process_single_link (demo_services pg) demo_world demo_url) = Some r
             \<and> message_count r = 1 \<and> message_types r = {''assistant''})"
proof (intro exI [of _ banner_page] conjI)
  show "validate_conversation_structure (extract_with_multiple_strategies length_hash banner_page)"
    by (rule banner_page_valid_before_filter)
  show "\<exists>t. extract_conversation length_hash (\<lambda>u. Some banner_page) demo_url = Some t
             \<and> messages t \<noteq> []
             \<and> ''user'' \<notin> set (map role (messages t))
             \<and> messages t = filter (\<lambda>msg. \<not> is_error_message msg)
                              (extract_with_multiple_strategies length_hash banner_page)
             \<and> length (messages t) < length (extract_with_multiple_strategies length_hash banner_page)"
    unfolding banner_page_conversation banner_page_kept
    by (simp add: banner_page_strategies)
  show "\<exists>r. fst (process_single_link (demo_services banner_page) demo_world demo_url) = Some r
             \<and> message_count r = 1 \<and> message_types r = {''assistant''}"
    unfolding banner_page_pipeline by simp
qed

section \<open>Claim C8: insights are best effort\<close>

text \<open>
  A transcript returned by \<open>extract_conversation\<close> is never empty. Once the link is
  validated, the conversation extracted and its file written, the run is step 5 on the
  world with the conversation file in it.
\<close>

lemma extract_conversation_messages_not_Nil:
  "extract_conversation str_hash render url' = Some t \<Longrightarrow> messages t \<noteq> []"
  unfolding extract_conversation_cases
  by (auto simp add: Let_def split: option.splits if_splits)

lemma process_single_link_persisted:
  assumes "improved_validate_link (sess w) url' = (True, sess')"
    and "extract_conversation (svc_hash svc) (svc_render svc) url' = Some conversation_data"
    and "svc_mkdir_ok svc"
    and "svc_write_ok svc (conversation_path svc (messages conversation_data) url')"
  shows "process_single_link svc w url' =
           extract_and_save_insights svc
             (w\<lparr>sess := sess',
                counters := (counters w)\<lparr>valid_links := valid_links (counters w) + 1\<rparr>,
                files := (files w)(conversation_path svc (messages conversation_data) url'
                                     \<mapsto> ConversationFile conversation_data)\<rparr>)
             (messages conversation_data)
             (file_name (generate_title (svc_clock svc) (messages conversation_data)) url')
             (transcript_only_result svc (messages conversation_data) url')"
proof -
  have "\<not> length (messages conversation_data) < 1"
    using extract_conversation_messages_not_Nil [OF assms(2)] by (simp add: Suc_le_eq)
  then show ?thesis
    using assms
    by (simp add: process_single_link_def Let_def conversation_path_def
        transcript_only_result_def)
qed

text \<open>
  C8: in every run that validates the link, extracts a transcript and writes the
  conversation file, the file holds the transcript at the end and a result is
  returned. \<open>extract_insights\<close> is called exactly when the transcript has at least
  2 messages. With fewer than 2 messages, and also when the insights are attempted
  but come back falsy or their file cannot be written, the result is the one without
  \<open>insights_file\<close>, no insights file is written and the insight counter is unchanged.
\<close>

theorem insights_are_best_effort:
  assumes "improved_validate_link (sess w) url' = (True, sess')"
    and "extract_conversation (svc_hash svc) (svc_render svc) url' = Some conversation_data"
    and "svc_mkdir_ok svc"
    and "svc_write_ok svc (conversation_path svc (messages conversation_data) url')"
  shows "files (snd (process_single_link svc w url'))
             (conversation_path svc (messages conversation_data) url')
           = Some (ConversationFile conversation_data)
         \<and> fst (process_single_link svc w url') \<noteq> None
         \<and> insight_requests (snd (process_single_link svc w url'))
             = (if length (messages conversation_data) \<ge> 2
                then insight_requests w @ [messages conversation_data]
                else insight_requests w)
         \<and> (length (messages conversation_data) < 2 \<longrightarrow>
              fst (process_single_link svc w url')
                = Some (transcript_only_result svc (messages conversation_data) url')
              \<and> files (snd (process_single_link svc w url'))
                  = (files w)(conversation_path svc (messages conversation_data) url'
                               \<mapsto> ConversationFile conversation_data)
              \<and> insights_extracted (counters (snd (process_single_link svc w url')))
                  = insights_extracted (counters w))
         \<and> (length (messages conversation_data) \<ge> 2
              \<and> \<not> (insight_truthy (extract_insights svc (messages conversation_data))
                     \<and> svc_write_ok svc (insights_path svc (messages conversation_data) url'))
              \<longrightarrow>
              fst (process_single_link svc w url')
                = Some (transcript_only_result svc (messages conversation_data) url')
              \<and> files (snd (process_single_link svc w url'))
                  = (files w)(conversation_path svc (messages conversation_data) url'
                               \<mapsto> ConversationFile conversation_data)
              \<and> insights_extracted (counters (snd (process_single_link svc w url')))
                  = insights_extracted (counters w))"
proof -
  note p = process_single_link_persisted [OF assms]
  show ?thesis
  proof (cases "length (messages conversation_data) \<ge> 2")
    case False
    then show ?thesis
      unfolding p by (simp add: extract_and_save_insights_def)
  next
    case True
    show ?thesis
    proof (cases "insight_truthy (extract_insights svc (messages conversation_data))
                  \<and> svc_write_ok svc (insights_path svc (messages conversation_data) url')")
      case ok: True
      with True show ?thesis
        unfolding p
        by (simp add: extract_and_save_insights_def Let_def conversation_path_def
            insights_path_def)
    next
      case bad: False
      with True show ?thesis
        unfolding p
        by (auto simp add: extract_and_save_insights_def Let_def insights_path_def)
    qed
  qed
qed

text \<open>
  The example link is valid for the example session. With writable insight files the
  run on the two-message document does save insights.
\<close>

lemma well_formed_locator_verdict:
  assumes "prefix ''https://chatgpt.com/share/'' url'"
    and "length (last (split ''/'' url')) \<ge> 20"
  shows "improved_validate_link ses url' =
           ((case transport ses url' of None \<Rightarrow> False | Some resp \<Rightarrow> check_response resp),
            ses\<lparr>calls := calls ses @ [url']\<rparr>)"
  using assms by (simp add: improved_validate_link_def Let_def split: option.splits)

lemma demo_link_is_valid:
  "improved_validate_link (sess demo_world) demo_url
     = (True, demo_session\<lparr>calls := calls demo_session @ [demo_url]\<rparr>)"
proof -
  have p: "prefix ''https://chatgpt.com/share/'' demo_url"
    by code_simp
  have l: "length (last (split ''/'' demo_url)) \<ge> 20"
    by code_simp
  have v: "(case transport demo_session demo_url of
              None \<Rightarrow> False | Some resp \<Rightarrow> check_response resp) = True"
    by code_simp
  have s: "sess demo_world = demo_session"
    by (simp add: demo_world_def)
  show ?thesis
    unfolding s well_formed_locator_verdict [OF p l] v ..
qed

lemma insights_saved_when_writable:
  "insights_file (the (fst (process_single_link
       ((demo_services alternate_layout_page)\<lparr>svc_write_ok := (\<lambda>path. True)\<rparr>)
       demo_world demo_url)))
     = Some ''insights_json/sam_my_name_is_how_6f1d2c3a-4b5e-4f70-8a9b-0c1d2e3f4a5b.json''"
  by code_simp

text \<open>
  C8 at two runs in which only \<open>valid_jsons/\<close> is writable: on the one-message
  transcript of \<open>banner_page\<close> no insight is requested; on the two-message transcript
  of \<open>alternate_layout_page\<close> the insight is requested, its file cannot be written,
  and the result is still the transcript-only one.
\<close>

theorem insights_are_best_effort_witness:
  "fst (process_single_link (demo_services banner_page) demo_world demo_url)
     = Some (transcript_only_result (demo_services banner_page)
               [\<lparr>role = ''assistant'', content = ''Here is what you can try next.'',
                 extraction_method = ''modern_selectors''\<rparr>] demo_url)
   \<and> insight_requests (snd (process_single_link (demo_services banner_page) demo_world demo_url))
       = []
   \<and> fst (process_single_link (demo_services alternate_layout_page) demo_world demo_url)
       = Some (transcript_only_result (demo_services alternate_layout_page)
                 [\<lparr>role = ''user'', content = ''my name is Sam, how do I reset a password'',
                   extraction_method = ''alternative_selectors''\<rparr>,
                  \<lparr>role = ''assistant'', content = ''Here is how: open the settings page'',
                   extraction_method = ''alternative_selectors''\<rparr>] demo_url)
   \<and> insight_requests
         (snd (process_single_link (demo_services alternate_layout_page) demo_world demo_url))
       = [ [\<lparr>role = ''user'', content = ''my name is Sam, how do I reset a password'',
            extraction_method = ''alternative_selectors''\<rparr>,
           \<lparr>role = ''assistant'', content = ''Here is how: open the settings page'',
            extraction_method = ''alternative_selectors''\<rparr>] ]"
proof -
  let ?m1 = "[\<lparr>role = ''assistant'', content = ''Here is what you can try next.'',
               extraction_method = ''modern_selectors''\<rparr>]"
  let ?t1 = "\<lparr> url = demo_url, messages = ?m1,
              metadata = \<lparr> total_messages = 1, user_messages = 0, assistant_messages = 1,
                           meta_extraction_method = ''playwright_multi_strategy'' \<rparr> \<rparr>"
  let ?m2 = "[\<lparr>role = ''user'', content = ''my name is Sam, how do I reset a password'',
               extraction_method = ''alternative_selectors''\<rparr>,
              \<lparr>role = ''assistant'', content = ''Here is how: open the settings page'',
               extraction_method = ''alternative_selectors''\<rparr>]"
  let ?t2 = "\<lparr> url = demo_url, messages = ?m2,
              metadata = \<lparr> total_messages = 2, user_messages = 1, assistant_messages = 1,
                           meta_extraction_method = ''playwright_multi_strategy'' \<rparr> \<rparr>"
  have e1: "extract_conversation (svc_hash (demo_services banner_page))
              (svc_render (demo_services banner_page)) demo_url = Some ?t1"
    by code_simp
  have d1: "svc_mkdir_ok (demo_services banner_page)"
    by code_simp
  have w1: "svc_write_ok (demo_services banner_page)
              (conversation_path (demo_services banner_page) (messages ?t1) demo_url)"
    by code_simp
  have e2: "extract_conversation (svc_hash (demo_services alternate_layout_page))
              (svc_render (demo_services alternate_layout_page)) demo_url = Some ?t2"
    by code_simp
  have d2: "svc_mkdir_ok (demo_services alternate_layout_page)"
    by code_simp
  have w2: "svc_write_ok (demo_services alternate_layout_page)
              (conversation_path (demo_services alternate_layout_page) (messages ?t2) demo_url)"
    by code_simp
  have f2: "\<not> svc_write_ok (demo_services alternate_layout_page)
                (insights_path (demo_services alternate_layout_page) ?m2 demo_url)"
    by code_simp
  have r: "insight_requests demo_world = []"
    by (simp add: demo_world_def)
  from insights_are_best_effort [OF demo_link_is_valid e1 d1 w1] r
  have a: "fst (process_single_link (demo_services banner_page) demo_world demo_url)
             = Some (transcript_only_result (demo_services banner_page) ?m1 demo_url)
           \<and> insight_requests
                 (snd (process_single_link (demo_services banner_page) demo_world demo_url)) = []"
    by simp
  from insights_are_best_effort [OF demo_link_is_valid e2 d2 w2] r f2
  have b: "fst (process_single_link (demo_services alternate_layout_page) demo_world demo_url)
             = Some (transcript_only_result (demo_services alternate_layout_page) ?m2 demo_url)
           \<and> insight_requests
                 (snd (process_single_link (demo_services alternate_layout_page) demo_world
                         demo_url)) = [?m2]"
    by simp
  from a b show ?thesis by blast
qed

end
